theory Spec2Isabelle
  imports Complex_Main "HOL-Library.Word"
begin

section \<open>Values of the host language\<close>

text \<open>
  A JavaScript \<open>number\<close> is a double: a finite value, \<open>NaN\<close> or one of the two
  infinities. Every finite double is a rational, so the finite values are modelled by
  \<open>rat\<close>; the checks of the source (\<open>Number.isInteger\<close>, \<open>Number.isFinite\<close>,
  \<open>x <= 0\<close>) are then exact. Negative zero compares like zero and is not told apart.
\<close>

datatype number = Finite rat | NaN | Infinity | NegInfinity

fun isInteger :: "number \<Rightarrow> bool" where
  "isInteger (Finite r) = (r = of_int \<lfloor>r\<rfloor>)"
| "isInteger _ = False"

fun isFinite :: "number \<Rightarrow> bool" where
  "isFinite (Finite r) = True"
| "isFinite _ = False"

text \<open>\<open>x <= 0\<close>: false whenever an operand is \<open>NaN\<close>.\<close>

fun leZero :: "number \<Rightarrow> bool" where
  "leZero (Finite r) = (r \<le> 0)"
| "leZero NaN = False"
| "leZero Infinity = False"
| "leZero NegInfinity = True"

text \<open>
  Strings are \<open>char list\<close>s; the model covers the code units \<open>0 .. 255\<close>. The class
  \<open>\s\<close> of a regular expression holds, in that range, the characters 9 to 13, the
  space and the no-break space.
\<close>

definition NUL :: char where
  "NUL = CHR 0x00"

definition isWhitespace :: "char \<Rightarrow> bool" where
  "isWhitespace c = (of_char c \<in> {9, 10, 11, 12, 13, 32, 160 :: nat})"

definition startsWithSlash :: "string \<Rightarrow> bool" where
  "startsWithSlash s = (case s of [] \<Rightarrow> False | c # _ \<Rightarrow> c = CHR ''/'')"

definition isAlnum :: "char \<Rightarrow> bool" where
  "isAlnum c = (let n = (of_char c :: nat) in
     (97 \<le> n \<and> n \<le> 122) \<or> (65 \<le> n \<and> n \<le> 90) \<or> (48 \<le> n \<and> n \<le> 57))"

text \<open>
  An object used as a string-keyed record (\<open>Record<string, string>\<close>) is the list of its
  properties in creation order. Assigning to a key that exists replaces the value in
  place; a new key goes to the end. \<open>Object.entries\<close> lists the keys that are array
  indices first, in ascending numeric order, and then the other keys in creation order.
\<close>

type_synonym 'v js_object = "(string \<times> 'v) list"

fun objectSet :: "'v js_object \<Rightarrow> string \<times> 'v \<Rightarrow> 'v js_object" where
  "objectSet [] (k, v) = [(k, v)]"
| "objectSet ((k', v') # rest) (k, v) =
     (if k' = k then (k, v) # rest else (k', v') # objectSet rest (k, v))"

definition isDigit :: "char \<Rightarrow> bool" where
  "isDigit c = (48 \<le> (of_char c :: nat) \<and> (of_char c :: nat) \<le> 57)"

definition decimalValue :: "string \<Rightarrow> nat" where
  "decimalValue s = foldl (\<lambda>n c. 10 * n + (of_char c - 48)) 0 s"

definition isArrayIndex :: "string \<Rightarrow> bool" where
  "isArrayIndex k =
     (k \<noteq> [] \<and> list_all isDigit k \<and> (k = ''0'' \<or> hd k \<noteq> CHR ''0'')
      \<and> decimalValue k < 4294967295)"

definition objectEntries :: "'v js_object \<Rightarrow> (string \<times> 'v) list" where
  "objectEntries obj =
     sort_key (\<lambda>e. decimalValue (fst e)) (filter (\<lambda>e. isArrayIndex (fst e)) obj)
     @ filter (\<lambda>e. \<not> isArrayIndex (fst e)) obj"

definition objectFromEntries :: "(string \<times> 'v) list \<Rightarrow> 'v js_object" where
  "objectFromEntries es = foldl objectSet [] es"

text \<open>The spread \<open>{...a, ...b}\<close>: the properties of \<open>a\<close>, then those of \<open>b\<close>, copied
  into a new object in the order \<open>Object.entries\<close> lists them.\<close>

definition objectSpread2 :: "'v js_object \<Rightarrow> 'v js_object \<Rightarrow> 'v js_object" where
  "objectSpread2 a b = foldl objectSet (foldl objectSet [] (objectEntries a)) (objectEntries b)"

section \<open>config.ts: resolving a sandbox configuration\<close>

text \<open>
  The interfaces of \<open>config.ts\<close> as records. A record field is a constant of the theory,
  so every field carries a short prefix naming its interface; an optional field is an
  \<open>option\<close>. \<open>SandboxNetworkMode\<close> is a union of string literals and is kept as a string,
  so that the check of the source against the two allowed values is a branch of the model.
\<close>

record SandboxResourceLimits =
  memory :: string
  cpus :: number
  pidsLimit :: number

record PartialResourceLimits =
  opt_memory :: "string option"
  opt_cpus :: "number option"
  opt_pidsLimit :: "number option"

record SandboxUserMapping =
  uid :: number
  gid :: number

record SandboxMount =
  hostPath :: string
  containerPath :: string
  readOnly :: bool

record PartialMount =
  opt_hostPath :: "string option"
  opt_containerPath :: "string option"
  opt_readOnly :: "bool option"

record SandboxConfig =
  cfg_enabled :: bool
  cfg_image :: string
  cfg_network :: "string option"
  cfg_resources :: "PartialResourceLimits option"
  cfg_user :: "SandboxUserMapping option"
  cfg_mount :: "PartialMount option"
  cfg_workdir :: "string option"
  cfg_env :: "string js_object option"
  cfg_preflightTimeoutMs :: "number option"
  cfg_pullTimeoutMs :: "number option"
  cfg_containerNamePrefix :: "string option"

record ResolvedSandboxConfig =
  rs_enabled :: bool
  rs_image :: string
  rs_network :: string
  rs_resources :: SandboxResourceLimits
  rs_user :: SandboxUserMapping
  rs_mount :: SandboxMount
  rs_workdir :: string
  rs_env :: "string js_object"
  rs_preflightTimeoutMs :: number
  rs_pullTimeoutMs :: number
  rs_containerNamePrefix :: string

text \<open>One constructor for each \<open>throw\<close> of \<open>config.ts\<close>.\<close>

datatype error =
    SandboxDisabled
  | ImageEmpty
  | ImageWhitespaceOrNul
  | IdentityUnavailable
  | HostIsRoot
  | UserNotInteger
  | UserNotPositive
  | MemoryEmpty
  | CpusNotPositive
  | PidsLimitNotPositiveInteger
  | InvalidNetworkMode string
  | PrefixEmpty
  | PrefixInvalidCharacters
  | ContainerPathNotAbsolute
  | WorkdirNotAbsolute

definition DEFAULT_LIMITS :: SandboxResourceLimits where
  "DEFAULT_LIMITS = \<lparr> memory = ''512m'', cpus = Finite (1 / 2), pidsLimit = Finite 50 \<rparr>"

definition DEFAULT_CONTAINER_PATH :: string where
  "DEFAULT_CONTAINER_PATH = ''/workspace''"

definition DEFAULT_PREFLIGHT_TIMEOUT_MS :: number where
  "DEFAULT_PREFLIGHT_TIMEOUT_MS = Finite 10000"

definition DEFAULT_PULL_TIMEOUT_MS :: number where
  "DEFAULT_PULL_TIMEOUT_MS = Finite 300000"

definition DEFAULT_CONTAINER_NAME_PREFIX :: string where
  "DEFAULT_CONTAINER_NAME_PREFIX = ''accomplish-sandbox''"

text \<open>
  What the resolver reads from the host: \<open>process.getuid\<close> and \<open>process.getgid\<close>, each
  absent (\<open>None\<close>) on a platform without them and otherwise giving the number it returns.
\<close>

record host_identity =
  getuid :: "number option"
  getgid :: "number option"

definition getHostUserMapping :: "host_identity \<Rightarrow> error + SandboxUserMapping" where
  "getHostUserMapping host =
     (case (getuid host, getgid host) of
        (Some u, Some g) \<Rightarrow>
          (if u = Finite 0 then Inl HostIsRoot else Inr \<lparr> uid = u, gid = g \<rparr>)
      | _ \<Rightarrow> Inl IdentityUnavailable)"

text \<open>A validator returns the error it throws, or \<open>None\<close> when it returns normally.\<close>

definition validateDockerImageName :: "string \<Rightarrow> error option" where
  "validateDockerImageName imageName =
     (if imageName = [] then Some ImageEmpty
      else if list_ex (\<lambda>c. isWhitespace c \<or> c = NUL) imageName then Some ImageWhitespaceOrNul
      else None)"

definition validateUserMapping :: "SandboxUserMapping \<Rightarrow> error option" where
  "validateUserMapping user =
     (if \<not> isInteger (uid user) \<or> \<not> isInteger (gid user) then Some UserNotInteger
      else if leZero (uid user) \<or> leZero (gid user) then Some UserNotPositive
      else None)"

definition validateResourceLimits :: "SandboxResourceLimits \<Rightarrow> error option" where
  "validateResourceLimits limits =
     (if memory limits = [] then Some MemoryEmpty
      else if \<not> isFinite (cpus limits) \<or> leZero (cpus limits) then Some CpusNotPositive
      else if \<not> isInteger (pidsLimit limits) \<or> leZero (pidsLimit limits)
        then Some PidsLimitNotPositiveInteger
      else None)"

text \<open>The pattern \<open>^[a-zA-Z0-9][a-zA-Z0-9_.-]*$\<close>.\<close>

definition validateContainerNamePrefix :: "string \<Rightarrow> error option" where
  "validateContainerNamePrefix prefix =
     (case prefix of
        [] \<Rightarrow> Some PrefixEmpty
      | c # cs \<Rightarrow>
          (if isAlnum c \<and> list_all (\<lambda>d. isAlnum d \<or> d \<in> {CHR ''_'', CHR ''.'', CHR ''-''}) cs
           then None else Some PrefixInvalidCharacters))"

text \<open>
  \<open>resolveSandboxConfig\<close>, check by check in the order of the source. \<open>path.resolve\<close>
  depends on the platform and on the working directory of the process, and is a
  parameter. \<open>config.user ?? getHostUserMapping()\<close> calls the host only when the
  configuration has no user mapping.
\<close>

definition resolveSandboxConfig ::
  "(string \<Rightarrow> string) \<Rightarrow> host_identity \<Rightarrow> SandboxConfig \<Rightarrow> error + ResolvedSandboxConfig" where
  "resolveSandboxConfig path_resolve host config =
     (if \<not> cfg_enabled config then Inl SandboxDisabled
      else case validateDockerImageName (cfg_image config) of
        Some e \<Rightarrow> Inl e
      | None \<Rightarrow>
     (case (case cfg_user config of Some u \<Rightarrow> Inr u | None \<Rightarrow> getHostUserMapping host) of
        Inl e \<Rightarrow> Inl e
      | Inr user \<Rightarrow>
     (case validateUserMapping user of
        Some e \<Rightarrow> Inl e
      | None \<Rightarrow>
     (let resources = \<lparr>
            memory = (case Option.bind (cfg_resources config) opt_memory of
                        Some m \<Rightarrow> m | None \<Rightarrow> memory DEFAULT_LIMITS),
            cpus = (case Option.bind (cfg_resources config) opt_cpus of
                        Some c \<Rightarrow> c | None \<Rightarrow> cpus DEFAULT_LIMITS),
            pidsLimit = (case Option.bind (cfg_resources config) opt_pidsLimit of
                        Some p \<Rightarrow> p | None \<Rightarrow> pidsLimit DEFAULT_LIMITS) \<rparr>
      in case validateResourceLimits resources of
        Some e \<Rightarrow> Inl e
      | None \<Rightarrow>
     (let network = (case cfg_network config of Some n \<Rightarrow> n | None \<Rightarrow> ''none'')
      in if network \<noteq> ''none'' \<and> network \<noteq> ''bridge'' then Inl (InvalidNetworkMode network)
      else
     (let containerNamePrefix =
            (case cfg_containerNamePrefix config of
               Some p \<Rightarrow> p | None \<Rightarrow> DEFAULT_CONTAINER_NAME_PREFIX)
      in case validateContainerNamePrefix containerNamePrefix of
        Some e \<Rightarrow> Inl e
      | None \<Rightarrow>
     (let mountHostPath = Option.bind (cfg_mount config) opt_hostPath;
          hostPath' = (case mountHostPath of
                         None \<Rightarrow> []
                       | Some h \<Rightarrow> (if h = [] then [] else path_resolve h));
          containerPath' = (case Option.bind (cfg_mount config) opt_containerPath of
                         Some p \<Rightarrow> p | None \<Rightarrow> DEFAULT_CONTAINER_PATH)
      in if \<not> startsWithSlash containerPath' then Inl ContainerPathNotAbsolute
      else
     (let mount = \<lparr> hostPath = hostPath', containerPath = containerPath',
                     readOnly = (case Option.bind (cfg_mount config) opt_readOnly of
                                   Some b \<Rightarrow> b | None \<Rightarrow> False) \<rparr>;
          workdir = (case cfg_workdir config of Some w \<Rightarrow> w | None \<Rightarrow> containerPath')
      in if \<not> startsWithSlash workdir then Inl WorkdirNotAbsolute
      else Inr \<lparr>
          rs_enabled = True,
          rs_image = cfg_image config,
          rs_network = network,
          rs_resources = resources,
          rs_user = user,
          rs_mount = mount,
          rs_workdir = workdir,
          rs_env = (case cfg_env config of Some e \<Rightarrow> e | None \<Rightarrow> []),
          rs_preflightTimeoutMs = (case cfg_preflightTimeoutMs config of
                                     Some t \<Rightarrow> t | None \<Rightarrow> DEFAULT_PREFLIGHT_TIMEOUT_MS),
          rs_pullTimeoutMs = (case cfg_pullTimeoutMs config of
                                     Some t \<Rightarrow> t | None \<Rightarrow> DEFAULT_PULL_TIMEOUT_MS),
          rs_containerNamePrefix = containerNamePrefix \<rparr>))))))))"

text \<open>The configuration \<open>{enabled: true, image: "alpine:3.19", user}\<close> of the tests.\<close>

definition alpineConfig :: "SandboxUserMapping \<Rightarrow> SandboxConfig" where
  "alpineConfig u = \<lparr>
     cfg_enabled = True, cfg_image = ''alpine:3.19'', cfg_network = None,
     cfg_resources = None, cfg_user = Some u, cfg_mount = None, cfg_workdir = None,
     cfg_env = None, cfg_preflightTimeoutMs = None, cfg_pullTimeoutMs = None,
     cfg_containerNamePrefix = None \<rparr>"

text \<open>
  \<open>toContainerCommand\<close>: \<open>path.basename\<close> depends on the platform (only the Windows
  flavour splits at a backslash) and is a parameter.
\<close>

definition toContainerCommand :: "(string \<Rightarrow> string) \<Rightarrow> string \<Rightarrow> string" where
  "toContainerCommand path_basename command =
     (if CHR ''/'' \<in> set command \<or> CHR 0x5C \<in> set command
      then path_basename command else command)"

section \<open>utils.ts: container names, the cleanup registry, redaction\<close>

text \<open>
  \<open>createSandboxContainerName\<close>: the bytes \<open>randomBytes(8)\<close> returned are a parameter;
  \<open>toString('hex')\<close> writes each byte as two lower-case hexadecimal digits.
\<close>

definition hexDigit :: "nat \<Rightarrow> char" where
  "hexDigit n = ''0123456789abcdef'' ! (n mod 16)"

definition toHex :: "8 word list \<Rightarrow> string" where
  "toHex bytes = concat (map (\<lambda>b. [hexDigit (unat b div 16), hexDigit (unat b mod 16)]) bytes)"

definition createSandboxContainerName :: "8 word list \<Rightarrow> string \<Rightarrow> string" where
  "createSandboxContainerName randomBytes8 prefix = prefix @ ''-'' @ toHex randomBytes8"

text \<open>
  A cleanup callback is a closure. The model knows the one \<open>runner.ts\<close> registers, which
  removes the container of the given name, and the closures of other callers by an
  identity. Every call of a callback is recorded in \<open>invoked\<close>. The registry is a
  \<open>Set\<close>, listed in insertion order.
\<close>

datatype CleanupCallback = DockerRmForceSync string | Closure nat

record module_state =
  cleanupCallbacks :: "CleanupCallback list"
  registeredProcesses :: "nat set"
  cleanupInProgress :: bool
  invoked :: "CleanupCallback list"

definition initial_module_state :: module_state where
  "initial_module_state = \<lparr> cleanupCallbacks = [], registeredProcesses = {},
     cleanupInProgress = False, invoked = [] \<rparr>"

definition registerSandboxCleanupCallback :: "CleanupCallback \<Rightarrow> module_state \<Rightarrow> module_state" where
  "registerSandboxCleanupCallback callback m =
     (if callback \<in> set (cleanupCallbacks m) then m
      else m\<lparr>cleanupCallbacks := cleanupCallbacks m @ [callback]\<rparr>)"

definition unregisterSandboxCleanupCallback :: "CleanupCallback \<Rightarrow> module_state \<Rightarrow> module_state" where
  "unregisterSandboxCleanupCallback callback m =
     m\<lparr>cleanupCallbacks := removeAll callback (cleanupCallbacks m)\<rparr>"

text \<open>
  A \<open>ProcessLike\<close> target. \<open>exitCode\<close> has the type of \<open>process.exitCode\<close>: a number, a
  string, \<open>null\<close> or \<open>undefined\<close>. The target is an event emitter: it keeps the
  listeners of each event in the order they were added, \<open>removeListener\<close> drops one, and
  emitting an event calls the listeners it has at that moment, in order. \<open>kill\<close> and
  \<open>exit\<close> belong to the target, and each call of them is recorded in \<open>calls\<close>. A \<open>kill\<close>
  either returns or throws. An \<open>exit\<close> never returns to its caller, and the interface
  leaves open how: the \<open>process.exit\<close> of Node, the default target, first calls the
  listeners of the exit event and then ends the process (\<open>ExitEmitsAndEnds\<close>); the test
  double of the repository records the code and throws (\<open>ExitThrows\<close>).

  A call completes in one of three ways: it returns, it throws (and the exception goes up
  to the nearest \<open>catch\<close>), or the process has ended.
\<close>

datatype js_value = JUndefined | JNull | JNumber number | JString string

datatype signal = SIGINT | SIGTERM

datatype event = ExitEvent | SignalEvent signal

datatype listener = OnExit | OnSigint | OnSigterm

datatype kill_behaviour = KillReturns | KillThrows

datatype exit_behaviour = ExitThrows | ExitEmitsAndEnds

datatype process_call = KillCall number signal | ExitCall js_value

datatype completion = Returned | Threw | Ended

datatype callback_step = Emit event | Throw

record ProcessLike =
  exitCode :: js_value
  pid :: "number option"
  kill :: "kill_behaviour option"
  exit :: exit_behaviour
  listeners :: "event \<Rightarrow> listener list"
  calls :: "process_call list"

fun isNumber :: "js_value \<Rightarrow> bool" where
  "isNumber (JNumber n) = True"
| "isNumber _ = False"

definition on :: "event \<Rightarrow> listener \<Rightarrow> ProcessLike \<Rightarrow> ProcessLike" where
  "on ev l p = p\<lparr>listeners := (listeners p)(ev := listeners p ev @ [l])\<rparr>"

text \<open>\<open>removeListener\<close> drops the instance added last.\<close>

definition removeListener :: "event \<Rightarrow> listener \<Rightarrow> ProcessLike \<Rightarrow> ProcessLike" where
  "removeListener ev l p =
     p\<lparr>listeners := (listeners p)(ev := rev (remove1 l (rev (listeners p ev))))\<rparr>"

text \<open>
  The state the handlers work on: the module's variables and the target they were
  installed on. A target is known to \<open>registeredProcesses\<close> by its identity, a number.

  A cleanup callback is caller code and may come back into the module while a pass is
  running. The model gives each callback a body, the steps it takes when it is called:
  it delivers an event to the target (\<open>targetProcess.emit\<close>), or it throws. The callback
  \<open>runner.ts\<close> registers has the empty body. Since a delivery runs handlers, which run
  the pass, which calls callbacks, which deliver events, the functions below take the
  delivery they use for nested events as a parameter, and \<open>emit\<close> closes the loop with
  a bound on the nesting depth: \<open>None\<close> is a nesting deeper than the bound.
\<close>

type_synonym state = "module_state \<times> ProcessLike"

type_synonym outcome = "(state \<times> completion) option"

type_synonym delivery = "event \<Rightarrow> state \<Rightarrow> outcome"

type_synonym callback_bodies = "CleanupCallback \<Rightarrow> callback_step list"

text \<open>Calling a callback: its steps in order, up to the first that does not return.\<close>

fun runSteps :: "delivery \<Rightarrow> callback_step list \<Rightarrow> state \<Rightarrow> outcome" where
  "runSteps deliver [] s = Some (s, Returned)"
| "runSteps deliver (Throw # steps) s = Some (s, Threw)"
| "runSteps deliver (Emit ev # steps) s =
     (case deliver ev s of
        None \<Rightarrow> None
      | Some (s', c) \<Rightarrow> if c = Returned then runSteps deliver steps s' else Some (s', c))"

text \<open>
  The loop of \<open>runCleanup\<close> over the copy \<open>Array.from(cleanupCallbacks)\<close>. Each call sits
  in its own \<open>try\<close>/\<open>catch\<close>, so the loop goes on whether the callback returns or throws;
  it stops only when the process has ended. The call is recorded in \<open>invoked\<close>.
\<close>

fun invokeCallbacks ::
  "delivery \<Rightarrow> callback_bodies \<Rightarrow> CleanupCallback list \<Rightarrow> state \<Rightarrow> outcome" where
  "invokeCallbacks deliver body [] s = Some (s, Returned)"
| "invokeCallbacks deliver body (callback # callbacks) s =
     (case runSteps deliver (body callback)
             ((fst s)\<lparr>invoked := invoked (fst s) @ [callback]\<rparr>, snd s) of
        None \<Rightarrow> None
      | Some (s', c) \<Rightarrow>
          if c = Ended then Some (s', Ended) else invokeCallbacks deliver body callbacks s')"

definition runCleanup :: "delivery \<Rightarrow> callback_bodies \<Rightarrow> state \<Rightarrow> outcome" where
  "runCleanup deliver body s =
     (if cleanupInProgress (fst s) then Some (s, Returned)
      else (let m1 = (fst s)\<lparr>cleanupInProgress := True\<rparr>;
                callbacks = cleanupCallbacks m1
            in case invokeCallbacks deliver body callbacks (m1, snd s) of
                 None \<Rightarrow> None
               | Some (s2, c) \<Rightarrow>
                   if c = Ended then Some (s2, Ended)
                   else Some (((fst s2)\<lparr>cleanupInProgress := False\<rparr>, snd s2), Returned)))"

text \<open>\<open>targetProcess.exit(targetProcess.exitCode)\<close>.\<close>

definition exitProcess :: "delivery \<Rightarrow> state \<Rightarrow> outcome" where
  "exitProcess deliver s =
     (let p' = (snd s)\<lparr>calls := calls (snd s) @ [ExitCall (exitCode (snd s))]\<rparr>
      in case exit (snd s) of
           ExitThrows \<Rightarrow> Some ((fst s, p'), Threw)
         | ExitEmitsAndEnds \<Rightarrow>
             (case deliver ExitEvent (fst s, p') of
                None \<Rightarrow> None
              | Some (s', c) \<Rightarrow> Some (s', Ended)))"

definition onExit :: "delivery \<Rightarrow> callback_bodies \<Rightarrow> state \<Rightarrow> outcome" where
  "onExit deliver body s = runCleanup deliver body s"

definition onSigint :: "delivery \<Rightarrow> callback_bodies \<Rightarrow> state \<Rightarrow> outcome" where
  "onSigint deliver body s =
     (case runCleanup deliver body s of
        None \<Rightarrow> None
      | Some (s1, c) \<Rightarrow>
          if c = Ended then Some (s1, Ended)
          else (let p = snd s1;
                    p1 = (if \<not> isNumber (exitCode p)
                          then p\<lparr>exitCode := JNumber (Finite 130)\<rparr> else p);
                    p2 = removeListener (SignalEvent SIGINT) OnSigint p1
                in case (kill p2, pid p2) of
                     (Some KillReturns, Some n) \<Rightarrow>
                       Some ((fst s1, p2\<lparr>calls := calls p2 @ [KillCall n SIGINT]\<rparr>), Returned)
                   | (Some KillThrows, Some n) \<Rightarrow>
                       exitProcess deliver
                         (fst s1, p2\<lparr>calls := calls p2 @ [KillCall n SIGINT]\<rparr>)
                   | _ \<Rightarrow> exitProcess deliver (fst s1, p2)))"

definition onSigterm :: "delivery \<Rightarrow> callback_bodies \<Rightarrow> state \<Rightarrow> outcome" where
  "onSigterm deliver body s =
     (case runCleanup deliver body s of
        None \<Rightarrow> None
      | Some (s1, c) \<Rightarrow>
          if c = Ended then Some (s1, Ended)
          else (let p = snd s1;
                    p1 = (if \<not> isNumber (exitCode p)
                          then p\<lparr>exitCode := JNumber (Finite 143)\<rparr> else p);
                    p2 = removeListener (SignalEvent SIGTERM) OnSigterm p1
                in case (kill p2, pid p2) of
                     (Some KillReturns, Some n) \<Rightarrow>
                       Some ((fst s1, p2\<lparr>calls := calls p2 @ [KillCall n SIGTERM]\<rparr>), Returned)
                   | (Some KillThrows, Some n) \<Rightarrow>
                       exitProcess deliver
                         (fst s1, p2\<lparr>calls := calls p2 @ [KillCall n SIGTERM]\<rparr>)
                   | _ \<Rightarrow> exitProcess deliver (fst s1, p2)))"

definition ensureSandboxProcessCleanupHandlers :: "nat \<Rightarrow> state \<Rightarrow> state" where
  "ensureSandboxProcessCleanupHandlers targetProcess s = (case s of (m, p) \<Rightarrow>
     (if targetProcess \<in> registeredProcesses m then (m, p)
      else (m\<lparr>registeredProcesses := insert targetProcess (registeredProcesses m)\<rparr>,
            on (SignalEvent SIGTERM) OnSigterm
              (on (SignalEvent SIGINT) OnSigint (on ExitEvent OnExit p)))))"

text \<open>
  Delivering an event to the target: each listener of the event is called in turn; a
  listener that does not return ends the delivery.
\<close>

fun callListener :: "delivery \<Rightarrow> callback_bodies \<Rightarrow> listener \<Rightarrow> state \<Rightarrow> outcome" where
  "callListener deliver body OnExit s = onExit deliver body s"
| "callListener deliver body OnSigint s = onSigint deliver body s"
| "callListener deliver body OnSigterm s = onSigterm deliver body s"

fun callListeners :: "delivery \<Rightarrow> callback_bodies \<Rightarrow> listener list \<Rightarrow> state \<Rightarrow> outcome" where
  "callListeners deliver body [] s = Some (s, Returned)"
| "callListeners deliver body (l # ls) s =
     (case callListener deliver body l s of
        None \<Rightarrow> None
      | Some (s', c) \<Rightarrow>
          if c = Returned then callListeners deliver body ls s' else Some (s', c))"

fun emit :: "nat \<Rightarrow> callback_bodies \<Rightarrow> event \<Rightarrow> state \<Rightarrow> outcome" where
  "emit 0 body ev s = None"
| "emit (Suc fuel) body ev s = callListeners (emit fuel body) body (listeners (snd s) ev) s"

declare emit.simps [simp del]

text \<open>
  \<open>redactDockerArgsForLogging\<close>. The loop of the source walks the array by index; here
  it walks the rest of the list. At \<open>--env\<close> the marker is pushed; when a token follows,
  the part of it before its first \<open>=\<close> (all of it when it has none) is pushed with the
  placeholder and the token is stepped over; when none follows, control falls out of
  the \<open>if\<close> and reaches the push at the end of the loop body, which pushes the marker
  again.
\<close>

fun redactDockerArgsForLogging :: "string list \<Rightarrow> string list" where
  "redactDockerArgsForLogging [] = []"
| "redactDockerArgsForLogging (arg # rest) =
     (if arg = ''--env'' then
        (case rest of
           next # rest' \<Rightarrow>
             arg # (takeWhile (\<lambda>c. c \<noteq> CHR ''='') next @ ''=<redacted>'')
                 # redactDockerArgsForLogging rest'
         | [] \<Rightarrow> arg # arg # redactDockerArgsForLogging rest)
      else arg # redactDockerArgsForLogging rest)"

section \<open>runner.ts: building the invocation\<close>

record SandboxRunOptions =
  ro_cwd :: string
  ro_command :: string
  ro_args :: "string list"
  ro_env :: "string option js_object"

record DockerRunSpec =
  spec_command :: string
  spec_args :: "string list"
  spec_containerName :: string
  spec_redactedArgs :: "string list"
  spec_cleanup :: CleanupCallback

text \<open>
  What the builder takes from the platform: \<open>path.resolve\<close>, \<open>path.basename\<close> and the
  conversion \<open>String(n)\<close> of a number, which a template literal applies as well.
\<close>

record platform =
  path_resolve :: "string \<Rightarrow> string"
  path_basename :: "string \<Rightarrow> string"
  numberToString :: "number \<Rightarrow> string"

text \<open>The loop over \<open>Object.entries(mergedEnv)\<close>, pushing onto \<open>dockerArgs\<close>.\<close>

fun pushEnvFlags :: "(string \<times> string) list \<Rightarrow> string list \<Rightarrow> string list" where
  "pushEnvFlags [] dockerArgs = dockerArgs"
| "pushEnvFlags ((key, val) # entries) dockerArgs =
     (if key = [] \<or> CHR ''='' \<in> set key \<or> NUL \<in> set key
      then pushEnvFlags entries dockerArgs
      else pushEnvFlags entries (dockerArgs @ [''--env'', key @ ''='' @ val]))"

text \<open>
  \<open>mergedEnv\<close>: the entries of \<open>options.env\<close> whose value is a string, made into an
  object, with \<open>sandbox.env\<close> spread over it.
\<close>

definition mergedEnv :: "ResolvedSandboxConfig \<Rightarrow> SandboxRunOptions \<Rightarrow> string js_object" where
  "mergedEnv sandbox options =
     objectSpread2
       (objectFromEntries
          (List.map_filter (\<lambda>(key, val). map_option (\<lambda>v. (key, v)) val)
             (objectEntries (ro_env options))))
       (rs_env sandbox)"

definition buildDockerRunSpec ::
  "platform \<Rightarrow> 8 word list \<Rightarrow> ResolvedSandboxConfig \<Rightarrow> SandboxRunOptions \<Rightarrow> module_state
     \<Rightarrow> DockerRunSpec \<times> module_state" where
  "buildDockerRunSpec pf randomBytes8 sandbox options m =
     (let containerName = createSandboxContainerName randomBytes8 (rs_containerNamePrefix sandbox);
          mountHostPath = path_resolve pf (ro_cwd options);
          mountContainerPath = containerPath (rs_mount sandbox);
          mountMode = (if readOnly (rs_mount sandbox) then '':ro'' else '':rw'');
          volumeArg = mountHostPath @ '':'' @ mountContainerPath @ mountMode;
          dockerArgs = [
            ''run'',
            ''--rm'',
            ''--name'',
            containerName,
            ''--user'',
            numberToString pf (uid (rs_user sandbox)) @ '':''
              @ numberToString pf (gid (rs_user sandbox)),
            ''--memory'',
            memory (rs_resources sandbox),
            ''--cpus'',
            numberToString pf (cpus (rs_resources sandbox)),
            ''--pids-limit'',
            numberToString pf (pidsLimit (rs_resources sandbox)),
            ''--network'',
            rs_network sandbox,
            ''--volume'',
            volumeArg,
            ''--workdir'',
            rs_workdir sandbox];
          dockerArgs1 = pushEnvFlags (objectEntries (mergedEnv sandbox options)) dockerArgs;
          containerCommand = toContainerCommand (path_basename pf) (ro_command options);
          dockerArgs2 = dockerArgs1 @ [rs_image sandbox, containerCommand] @ ro_args options;
          cleanup = DockerRmForceSync containerName
      in (\<lparr> spec_command = ''docker'',
             spec_args = dockerArgs2,
             spec_containerName = containerName,
             spec_redactedArgs = redactDockerArgsForLogging dockerArgs2,
             spec_cleanup = cleanup \<rparr>,
          registerSandboxCleanupCallback cleanup m))"

definition disposeDockerRunSpec :: "DockerRunSpec \<Rightarrow> module_state \<Rightarrow> module_state" where
  "disposeDockerRunSpec spec m =
     (let m1 = unregisterSandboxCleanupCallback (spec_cleanup spec) m
      in m1\<lparr>invoked := invoked m1 @ [spec_cleanup spec]\<rparr>)"

section \<open>Examples and auxiliary notions\<close>

text \<open>
  The target of the unit test of the signal handling: no exit code yet, no \<open>pid\<close>, no
  \<open>kill\<close>, no listener, an \<open>exit\<close> that throws. \<open>exampleState\<close> is the module after two
  callbacks were registered and the handlers installed on that target.
\<close>

definition mockProcess :: ProcessLike where
  "mockProcess = \<lparr> exitCode = JUndefined, pid = None, kill = None, exit = ExitThrows,
     listeners = (\<lambda>ev. []), calls = [] \<rparr>"

definition exampleModule :: module_state where
  "exampleModule = registerSandboxCleanupCallback (Closure 1)
     (registerSandboxCleanupCallback (Closure 0) initial_module_state)"

definition exampleState :: state where
  "exampleState = ensureSandboxProcessCleanupHandlers 0 (exampleModule, mockProcess)"

text \<open>
  The same registry with the handlers installed on a target whose \<open>exit\<close> is that of
  Node; \<open>k\<close> says whether the target has a \<open>kill\<close> and what it does.
\<close>

definition nodeState :: "kill_behaviour option \<Rightarrow> state" where
  "nodeState k = ensureSandboxProcessCleanupHandlers 0
     (exampleModule, mockProcess\<lparr>exit := ExitEmitsAndEnds, pid := Some (Finite 4242), kill := k\<rparr>)"

text \<open>
  Two assignments of bodies: no callback touches the target; or the first callback
  delivers the interrupt signal to the target while it runs.
\<close>

definition noReentry :: callback_bodies where
  "noReentry = (\<lambda>callback. [])"

definition reentrantBodies :: callback_bodies where
  "reentrantBodies = (\<lambda>callback. if callback = Closure 0 then [Emit (SignalEvent SIGINT)] else [])"


text \<open>
  On a safe target the last step of a signal handler delivers nothing: the re-raise
  succeeds, or \<open>exit\<close> throws without calling the listeners of the exit event. A
  handler leaves \<open>kill\<close>, \<open>pid\<close> and \<open>exit\<close> of the target alone and adds no listener
  (\<open>quietP\<close>).
\<close>

definition safeTarget :: "ProcessLike \<Rightarrow> bool" where
  "safeTarget p = (exit p = ExitThrows \<or> (kill p = Some KillReturns \<and> (\<exists>n. pid p = Some n)))"

definition quietP :: "ProcessLike \<Rightarrow> ProcessLike \<Rightarrow> bool" where
  "quietP p p' = (kill p' = kill p \<and> pid p' = pid p \<and> exit p' = exit p
     \<and> (\<forall>ev. length (listeners p' ev) \<le> length (listeners p ev)
             \<and> set (listeners p' ev) \<subseteq> set (listeners p ev)))"

text \<open>
  A platform for the examples: it agrees with Node on a POSIX host for absolute paths
  without a trailing slash and for the three numbers the examples use.
\<close>

definition examplePlatform :: platform where
  "examplePlatform = \<lparr>
     path_resolve = (\<lambda>p. p),
     path_basename = (\<lambda>p. rev (takeWhile (\<lambda>c. c \<noteq> CHR ''/'') (rev p))),
     numberToString = (\<lambda>n. if n = Finite 1000 then ''1000'' else if n = Finite 50 then ''50''
                            else if n = Finite (1 / 2) then ''0.5'' else ''NaN'') \<rparr>"

definition exampleSandbox :: ResolvedSandboxConfig where
  "exampleSandbox = \<lparr>
     rs_enabled = True, rs_image = ''alpine:3.19'', rs_network = ''none'',
     rs_resources = \<lparr> memory = ''512m'', cpus = Finite (1 / 2), pidsLimit = Finite 50 \<rparr>,
     rs_user = \<lparr> uid = Finite 1000, gid = Finite 1000 \<rparr>,
     rs_mount = \<lparr> hostPath = [], containerPath = ''/workspace'', readOnly = False \<rparr>,
     rs_workdir = ''/workspace'', rs_env = [],
     rs_preflightTimeoutMs = Finite 10000, rs_pullTimeoutMs = Finite 300000,
     rs_containerNamePrefix = ''accomplish-sandbox'' \<rparr>"

definition exampleOptions :: "string list \<Rightarrow> string option js_object \<Rightarrow> SandboxRunOptions" where
  "exampleOptions as e = \<lparr> ro_cwd = ''/tmp/work'', ro_command = ''/usr/bin/printenv'',
     ro_args = as, ro_env = e \<rparr>"

definition zeroBytes :: "8 word list" where
  "zeroBytes = [0, 0, 0, 0, 0, 0, 0, 0]"

definition noIdentityHost :: host_identity where
  "noIdentityHost = \<lparr> getuid = None, getgid = None \<rparr>"

definition rootHost :: host_identity where
  "rootHost = \<lparr> getuid = Some (Finite 0), getgid = Some (Finite 0) \<rparr>"

text \<open>
  The scan of \<open>redactDockerArgsForLogging\<close> ends on a marker when it reads \<open>--env\<close> as
  a marker at the last position, with no token after it.
\<close>

fun endsOnMarker :: "string list \<Rightarrow> bool" where
  "endsOnMarker [] = False"
| "endsOnMarker (arg # rest) =
     (if arg = ''--env'' then (case rest of next # rest' \<Rightarrow> endsOnMarker rest' | [] \<Rightarrow> True)
      else endsOnMarker rest)"

section \<open>Resolution\<close>

lemmas resolve_defs = resolveSandboxConfig_def alpineConfig_def validateDockerImageName_def
  validateUserMapping_def validateResourceLimits_def validateContainerNamePrefix_def
  DEFAULT_LIMITS_def DEFAULT_CONTAINER_PATH_def DEFAULT_PREFLIGHT_TIMEOUT_MS_def
  DEFAULT_PULL_TIMEOUT_MS_def DEFAULT_CONTAINER_NAME_PREFIX_def isWhitespace_def NUL_def
  startsWithSlash_def isAlnum_def Let_def

lemma not_integer_three_halves: "\<not> isInteger (Finite (3 / 2))"
  by code_simp

lemma validateDockerImageName_errors:
  "validateDockerImageName i = Some e \<Longrightarrow> e = ImageEmpty \<or> e = ImageWhitespaceOrNul"
  by (auto simp: validateDockerImageName_def split: if_splits)

lemma validateUserMapping_errors:
  "validateUserMapping u = Some e \<Longrightarrow> e = UserNotInteger \<or> e = UserNotPositive"
  by (auto simp: validateUserMapping_def split: if_splits)

lemma validateResourceLimits_errors:
  "validateResourceLimits l = Some e \<Longrightarrow>
     e = MemoryEmpty \<or> e = CpusNotPositive \<or> e = PidsLimitNotPositiveInteger"
  by (auto simp: validateResourceLimits_def split: if_splits)

lemma validateContainerNamePrefix_errors:
  "validateContainerNamePrefix p = Some e \<Longrightarrow> e = PrefixEmpty \<or> e = PrefixInvalidCharacters"
  by (auto simp: validateContainerNamePrefix_def split: if_splits list.splits)

lemma thrown_or_continue:
  "((case v of None \<Rightarrow> r | Some e \<Rightarrow> Inl e) = Inl x) = (v = Some x \<or> (v = None \<and> r = Inl x))"
  by (cases v) auto

lemma resolve_explicit_user_errors:
  assumes "cfg_user config = Some u" and "resolveSandboxConfig pr host config = Inl e"
  shows "e \<noteq> IdentityUnavailable \<and> e \<noteq> HostIsRoot"
  using assms
  by (auto simp: resolveSandboxConfig_def Let_def thrown_or_continue
      split: if_splits
      dest!: validateDockerImageName_errors validateUserMapping_errors
        validateResourceLimits_errors validateContainerNamePrefix_errors)

lemma resolve_explicit_user_host:
  assumes "cfg_user config = Some u"
  shows "resolveSandboxConfig pr host config = resolveSandboxConfig pr host' config"
  using assms by (simp add: resolveSandboxConfig_def cong: option.case_cong if_cong)

lemma validateUserMapping_root: "uid u = Finite 0 \<Longrightarrow> validateUserMapping u \<noteq> None"
  by (simp add: validateUserMapping_def)

lemma resolve_root_fails:
  assumes "cfg_user config = Some u" and "uid u = Finite 0"
  shows "isl (resolveSandboxConfig pr host config)"
proof (cases "resolveSandboxConfig pr host config")
  case (Inl e)
  then show ?thesis by simp
next
  case (Inr r)
  then have "validateUserMapping u = None"
    using assms(1)
    by (auto simp: resolveSandboxConfig_def Let_def split: if_splits option.splits)
  with validateUserMapping_root [OF assms(2)] show ?thesis by simp
qed

lemma resolve_root_rejected:
  assumes "cfg_user config = Some u" and "uid u = Finite 0" and "cfg_enabled config"
    and "validateDockerImageName (cfg_image config) = None" and "isInteger (gid u)"
  shows "resolveSandboxConfig pr host config = Inl UserNotPositive"
  using assms by (simp add: resolveSandboxConfig_def validateUserMapping_def)

text \<open>
  Claim C9. Resolving \<open>{enabled: true, image: "alpine:3.19", user: {uid: 1000, gid: 1000}}\<close>
  succeeds on every host and gives the network mode \<open>none\<close> (no network access, the
  isolated mode), the default memory limit \<open>512m\<close>, the default CPU share \<open>0.5\<close>, the
  default process-count limit \<open>50\<close> and the user mapping \<open>{1000, 1000}\<close>.
\<close>

theorem resolve_alpine_defaults:
  "\<exists>r. resolveSandboxConfig pr host (alpineConfig \<lparr> uid = Finite 1000, gid = Finite 1000 \<rparr>) = Inr r
     \<and> r = exampleSandbox
     \<and> rs_network r = ''none''
     \<and> memory (rs_resources r) = ''512m''
     \<and> cpus (rs_resources r) = Finite (1 / 2)
     \<and> pidsLimit (rs_resources r) = Finite 50
     \<and> rs_resources r = DEFAULT_LIMITS
     \<and> rs_user r = \<lparr> uid = Finite 1000, gid = Finite 1000 \<rparr>"
  by (simp add: resolve_defs exampleSandbox_def)

text \<open>
  Claim C5, as stated, at two inputs. An explicit mapping with uid 0 does not always fail
  with the root-rejection error: with a gid that is not an integer the integer check
  throws first, and on a disabled configuration the first check of the resolver throws.
\<close>

theorem root_mapping_other_error_counterexample:
  "resolveSandboxConfig (\<lambda>p. p) noIdentityHost
       (alpineConfig \<lparr> uid = Finite 0, gid = Finite (3 / 2) \<rparr>) = Inl UserNotInteger
   \<and> resolveSandboxConfig (\<lambda>p. p) noIdentityHost
       ((alpineConfig \<lparr> uid = Finite 0, gid = Finite 1000 \<rparr>)\<lparr>cfg_enabled := False\<rparr>)
       = Inl SandboxDisabled"
  by (simp add: resolve_defs not_integer_three_halves del: isInteger.simps)

text \<open>
  Claim C5, amended. For every configuration with an explicit user mapping, resolution
  does not depend on the identity of the host and never fails with one of the two
  errors of the identity lookup. With uid 0 in the mapping it always fails; it fails with
  the root-rejection error whenever the configuration is enabled, its image name passes
  validation and the gid is an integer.
\<close>

theorem explicit_user_mapping_gate:
  assumes "cfg_user config = Some u"
  shows "resolveSandboxConfig pr host config = resolveSandboxConfig pr host' config
     \<and> resolveSandboxConfig pr host config \<noteq> Inl IdentityUnavailable
     \<and> resolveSandboxConfig pr host config \<noteq> Inl HostIsRoot
     \<and> (uid u = Finite 0 \<longrightarrow> isl (resolveSandboxConfig pr host config))
     \<and> (uid u = Finite 0 \<and> cfg_enabled config
          \<and> validateDockerImageName (cfg_image config) = None \<and> isInteger (gid u)
        \<longrightarrow> resolveSandboxConfig pr host config = Inl UserNotPositive)"
proof -
  have "resolveSandboxConfig pr host config \<noteq> Inl IdentityUnavailable"
    and "resolveSandboxConfig pr host config \<noteq> Inl HostIsRoot"
    using resolve_explicit_user_errors [OF assms] by blast+
  with resolve_explicit_user_host [OF assms] resolve_root_fails [OF assms]
    resolve_root_rejected [OF assms]
  show ?thesis by blast
qed

theorem explicit_user_mapping_gate_witness:
  "resolveSandboxConfig (\<lambda>p. p) noIdentityHost (alpineConfig \<lparr> uid = Finite 0, gid = Finite 1000 \<rparr>)
     = Inl UserNotPositive
   \<and> resolveSandboxConfig (\<lambda>p. p) noIdentityHost (alpineConfig \<lparr> uid = Finite 0, gid = Finite 1000 \<rparr>)
     = resolveSandboxConfig (\<lambda>p. p) rootHost (alpineConfig \<lparr> uid = Finite 0, gid = Finite 1000 \<rparr>)
   \<and> resolveSandboxConfig (\<lambda>p. p) noIdentityHost
       (alpineConfig \<lparr> uid = Finite 1000, gid = Finite 1000 \<rparr>)
     = resolveSandboxConfig (\<lambda>p. p) rootHost (alpineConfig \<lparr> uid = Finite 1000, gid = Finite 1000 \<rparr>)
   \<and> resolveSandboxConfig (\<lambda>p. p) noIdentityHost
       (alpineConfig \<lparr> uid = Finite 1000, gid = Finite 1000 \<rparr>) \<noteq> Inl IdentityUnavailable"
proof -
  have root: "cfg_user (alpineConfig \<lparr> uid = Finite 0, gid = Finite 1000 \<rparr>)
      = Some \<lparr> uid = Finite 0, gid = Finite 1000 \<rparr>"
    and user: "cfg_user (alpineConfig \<lparr> uid = Finite 1000, gid = Finite 1000 \<rparr>)
      = Some \<lparr> uid = Finite 1000, gid = Finite 1000 \<rparr>"
    and ok: "cfg_enabled (alpineConfig \<lparr> uid = Finite 0, gid = Finite 1000 \<rparr>)"
      "validateDockerImageName (cfg_image (alpineConfig \<lparr> uid = Finite 0, gid = Finite 1000 \<rparr>)) = None"
    by (simp_all add: alpineConfig_def validateDockerImageName_def isWhitespace_def NUL_def)
  from explicit_user_mapping_gate [OF root, of "\<lambda>p. p" noIdentityHost rootHost]
    explicit_user_mapping_gate [OF user, of "\<lambda>p. p" noIdentityHost rootHost] ok
  show ?thesis by auto
qed

section \<open>The cleanup registry\<close>

text \<open>The registry stays a set: registering and unregistering keep the listing distinct.\<close>

lemma registry_distinct:
  "distinct (cleanupCallbacks m) \<Longrightarrow>
     distinct (cleanupCallbacks (registerSandboxCleanupCallback c m))
     \<and> distinct (cleanupCallbacks (unregisterSandboxCleanupCallback c m))"
  by (simp add: registerSandboxCleanupCallback_def unregisterSandboxCleanupCallback_def
      distinct_removeAll)

text \<open>
  Disposal takes the action out of the registry before it calls it, so that no trigger
  calls it again.
\<close>

lemma dispose_unregisters_first:
  "spec_cleanup spec \<notin> set (cleanupCallbacks (disposeDockerRunSpec spec m))
   \<and> invoked (disposeDockerRunSpec spec m) = invoked m @ [spec_cleanup spec]"
  by (simp add: disposeDockerRunSpec_def unregisterSandboxCleanupCallback_def Let_def)






lemma quietP_calls: "quietP p (p\<lparr>calls := x\<rparr>)"
  by (simp add: quietP_def)


text \<open>The steps of a signal handler after the cleanup pass, on a safe target.\<close>

lemma exitProcess_safe:
  assumes "safeTarget (snd s)" and "\<not> (kill (snd s) = Some KillReturns \<and> (\<exists>n. pid (snd s) = Some n))"
  shows "exitProcess d s = Some ((fst s, (snd s)\<lparr>calls := calls (snd s) @ [ExitCall (exitCode (snd s))]\<rparr>), Threw)"
  using assms by (auto simp: exitProcess_def safeTarget_def Let_def)













lemma exampleModule_eq:
  "exampleModule = \<lparr> cleanupCallbacks = [Closure 0, Closure 1], registeredProcesses = {},
        cleanupInProgress = False, invoked = [] \<rparr>"
  by (simp add: exampleModule_def registerSandboxCleanupCallback_def initial_module_state_def)

lemma exampleState_eq:
  "exampleState =
     (\<lparr> cleanupCallbacks = [Closure 0, Closure 1], registeredProcesses = {0},
        cleanupInProgress = False, invoked = [] \<rparr>,
      \<lparr> exitCode = JUndefined, pid = None, kill = None, exit = ExitThrows,
        listeners = (\<lambda>ev. case ev of ExitEvent \<Rightarrow> [OnExit]
                          | SignalEvent SIGINT \<Rightarrow> [OnSigint]
                          | SignalEvent SIGTERM \<Rightarrow> [OnSigterm]),
        calls = [] \<rparr>)"
  by (auto simp add: exampleState_def exampleModule_eq ensureSandboxProcessCleanupHandlers_def
      mockProcess_def on_def fun_eq_iff split: event.splits signal.splits)

lemma nodeState_eq:
  "nodeState k =
     (\<lparr> cleanupCallbacks = [Closure 0, Closure 1], registeredProcesses = {0},
        cleanupInProgress = False, invoked = [] \<rparr>,
      \<lparr> exitCode = JUndefined, pid = Some (Finite 4242), kill = k, exit = ExitEmitsAndEnds,
        listeners = (\<lambda>ev. case ev of ExitEvent \<Rightarrow> [OnExit]
                          | SignalEvent SIGINT \<Rightarrow> [OnSigint]
                          | SignalEvent SIGTERM \<Rightarrow> [OnSigterm]),
        calls = [] \<rparr>)"
  by (auto simp add: nodeState_def exampleModule_eq ensureSandboxProcessCleanupHandlers_def
      mockProcess_def on_def fun_eq_iff split: event.splits signal.splits)

lemmas handler_defs = emit.simps onSigint_def onSigterm_def onExit_def runCleanup_def
  exitProcess_def Let_def removeListener_def noReentry_def reentrantBodies_def

text \<open>
  Claim C1, on the code, on the target of the unit test with two callbacks registered
  that leave the target alone. The interrupt signal runs both callbacks and the registry
  still holds both afterwards; the exit event that follows runs both a second time.
\<close>

theorem callbacks_run_again_on_later_trigger:
  "emit (Suc (Suc 0)) noReentry (SignalEvent SIGINT) exampleState
     = Some (((fst exampleState)\<lparr>invoked := [Closure 0, Closure 1]\<rparr>,
              (snd exampleState)\<lparr>exitCode := JNumber (Finite 130),
                 listeners := (listeners (snd exampleState))(SignalEvent SIGINT := []),
                 calls := [ExitCall (JNumber (Finite 130))]\<rparr>), Threw)
   \<and> emit (Suc (Suc 0)) noReentry ExitEvent
       ((fst exampleState)\<lparr>invoked := [Closure 0, Closure 1]\<rparr>,
        (snd exampleState)\<lparr>exitCode := JNumber (Finite 130),
           listeners := (listeners (snd exampleState))(SignalEvent SIGINT := []),
           calls := [ExitCall (JNumber (Finite 130))]\<rparr>)
     = Some (((fst exampleState)\<lparr>invoked := [Closure 0, Closure 1, Closure 0, Closure 1]\<rparr>,
              (snd exampleState)\<lparr>exitCode := JNumber (Finite 130),
                 listeners := (listeners (snd exampleState))(SignalEvent SIGINT := []),
                 calls := [ExitCall (JNumber (Finite 130))]\<rparr>), Returned)
   \<and> cleanupCallbacks (fst exampleState) = [Closure 0, Closure 1]
   \<and> invoked (fst exampleState) = []"
  by (simp add: exampleState_eq handler_defs)

text \<open>
  Claim C2, on the code, on a target whose \<open>exit\<close> is that of Node, with the same two
  callbacks. Where the target has no \<open>kill\<close>, or its \<open>kill\<close> throws, one delivery of the
  interrupt signal runs every callback twice: once in the pass of the handler and once
  more in the pass that the exit event, delivered by \<open>exit\<close>, starts. The exit code is
  130 as the claim says. Where the re-raise succeeds every callback runs once.
\<close>

theorem sigint_fallback_runs_cleanup_twice:
  "emit (Suc (Suc 0)) noReentry (SignalEvent SIGINT) (nodeState None)
     = Some (((fst (nodeState None))\<lparr>invoked := [Closure 0, Closure 1, Closure 0, Closure 1]\<rparr>,
              (snd (nodeState None))\<lparr>exitCode := JNumber (Finite 130),
                 listeners := (listeners (snd (nodeState None)))(SignalEvent SIGINT := []),
                 calls := [ExitCall (JNumber (Finite 130))]\<rparr>), Ended)
   \<and> emit (Suc (Suc 0)) noReentry (SignalEvent SIGINT) (nodeState (Some KillThrows))
     = Some (((fst (nodeState (Some KillThrows)))
                \<lparr>invoked := [Closure 0, Closure 1, Closure 0, Closure 1]\<rparr>,
              (snd (nodeState (Some KillThrows)))\<lparr>exitCode := JNumber (Finite 130),
                 listeners := (listeners (snd (nodeState (Some KillThrows))))
                    (SignalEvent SIGINT := []),
                 calls := [KillCall (Finite 4242) SIGINT, ExitCall (JNumber (Finite 130))]\<rparr>),
             Ended)
   \<and> emit (Suc (Suc 0)) noReentry (SignalEvent SIGINT) (nodeState (Some KillReturns))
     = Some (((fst (nodeState (Some KillReturns)))\<lparr>invoked := [Closure 0, Closure 1]\<rparr>,
              (snd (nodeState (Some KillReturns)))\<lparr>exitCode := JNumber (Finite 130),
                 listeners := (listeners (snd (nodeState (Some KillReturns))))
                    (SignalEvent SIGINT := []),
                 calls := [KillCall (Finite 4242) SIGINT]\<rparr>),
             Returned)
   \<and> invoked (fst (nodeState None)) = []
   \<and> cleanupCallbacks (fst (nodeState None)) = [Closure 0, Closure 1]"
  by (simp add: nodeState_eq handler_defs)





section \<open>The argument vector\<close>

lemma pushEnvFlags_eq:
  "pushEnvFlags es acc = acc @ concat (map (\<lambda>(k, v). [''--env'', k @ ''='' @ v])
      (filter (\<lambda>(k, v). k \<noteq> [] \<and> CHR ''='' \<notin> set k \<and> NUL \<notin> set k) es))"
  by (induction es arbitrary: acc) auto

lemmas example_defs = buildDockerRunSpec_def Let_def examplePlatform_def exampleSandbox_def
  exampleOptions_def zeroBytes_def createSandboxContainerName_def toHex_def hexDigit_def
  mergedEnv_def objectSpread2_def objectFromEntries_def objectEntries_def isArrayIndex_def
  isDigit_def List.map_filter_def toContainerCommand_def NUL_def

text \<open>
  Claim C4, as stated, at the environment \<open>{FOO: "bar", "BAD=KEY": "x"}\<close>: the merged
  environment has two entries and the vector has one environment flag.
\<close>

theorem env_flag_per_entry_counterexample:
  "objectEntries (mergedEnv exampleSandbox
       (exampleOptions [] [(''FOO'', Some ''bar''), (''BAD=KEY'', Some ''x'')]))
     = [(''FOO'', ''bar''), (''BAD=KEY'', ''x'')]
   \<and> spec_args (fst (buildDockerRunSpec examplePlatform zeroBytes exampleSandbox
       (exampleOptions [] [(''FOO'', Some ''bar''), (''BAD=KEY'', Some ''x'')])
       initial_module_state))
     = [''run'', ''--rm'', ''--name'', ''accomplish-sandbox-0000000000000000'',
        ''--user'', ''1000:1000'', ''--memory'', ''512m'', ''--cpus'', ''0.5'',
        ''--pids-limit'', ''50'', ''--network'', ''none'',
        ''--volume'', ''/tmp/work:/workspace:rw'', ''--workdir'', ''/workspace'',
        ''--env'', ''FOO=bar'', ''alpine:3.19'', ''printenv'']"
  by (simp add: example_defs)

text \<open>
  Claim C4, amended. For every resolved configuration and run options the built vector
  is, after the subcommand \<open>run\<close> and in this order: the remove-on-exit flag, the
  generated name, the user mapping as \<open>uid:gid\<close>, the memory limit, the CPU share, the
  process-count limit, the network mode, one volume mount (the resolved host working
  directory, the configured container path and \<open>:ro\<close> or \<open>:rw\<close>), the working directory
  flag, then one environment flag for each merged environment entry whose key is not
  empty and has neither \<open>=\<close> nor NUL in it (no flag for any other entry), then the image
  reference, the container-side command name (the basename of the host command when it
  has a slash or a backslash in it) and the argument list as it is.
\<close>

theorem built_argument_vector:
  "spec_args (fst (buildDockerRunSpec pf rnd sandbox options m)) =
     [''run'', ''--rm'',
      ''--name'', createSandboxContainerName rnd (rs_containerNamePrefix sandbox),
      ''--user'', numberToString pf (uid (rs_user sandbox)) @ '':''
                   @ numberToString pf (gid (rs_user sandbox)),
      ''--memory'', memory (rs_resources sandbox),
      ''--cpus'', numberToString pf (cpus (rs_resources sandbox)),
      ''--pids-limit'', numberToString pf (pidsLimit (rs_resources sandbox)),
      ''--network'', rs_network sandbox,
      ''--volume'', path_resolve pf (ro_cwd options) @ '':'' @ containerPath (rs_mount sandbox)
                     @ (if readOnly (rs_mount sandbox) then '':ro'' else '':rw''),
      ''--workdir'', rs_workdir sandbox]
     @ concat (map (\<lambda>(k, v). [''--env'', k @ ''='' @ v])
         (filter (\<lambda>(k, v). k \<noteq> [] \<and> CHR ''='' \<notin> set k \<and> NUL \<notin> set k)
            (objectEntries (mergedEnv sandbox options))))
     @ [rs_image sandbox,
        if CHR ''/'' \<in> set (ro_command options) \<or> CHR 0x5C \<in> set (ro_command options)
        then path_basename pf (ro_command options) else ro_command options]
     @ ro_args options"
  by (simp add: buildDockerRunSpec_def Let_def pushEnvFlags_eq toContainerCommand_def)

text \<open>
  Claim C6. The environment flags of the built vector all come from merged entries whose
  key is not empty and has neither \<open>=\<close> nor NUL in it: the vector is its eighteen leading
  tokens, the flags of such entries, the image, the command and the arguments. An entry
  with an empty key, or with \<open>=\<close> or NUL in the key, is skipped by the loop: the loop
  pushes the same tokens with the entry as without it.
\<close>

theorem env_flags_skip_unsafe_keys:
  "(\<exists>flags. spec_args (fst (buildDockerRunSpec pf rnd sandbox options m)) =
       take 18 (spec_args (fst (buildDockerRunSpec pf rnd sandbox options m)))
       @ concat (map (\<lambda>(k, v). [''--env'', k @ ''='' @ v]) flags)
       @ [rs_image sandbox, toContainerCommand (path_basename pf) (ro_command options)]
       @ ro_args options
     \<and> set flags \<subseteq> set (objectEntries (mergedEnv sandbox options))
     \<and> (\<forall>(k, v) \<in> set flags. k \<noteq> [] \<and> CHR ''='' \<notin> set k \<and> NUL \<notin> set k))
   \<and> (key = [] \<or> CHR ''='' \<in> set key \<or> NUL \<in> set key \<longrightarrow>
        pushEnvFlags (es1 @ (key, val) # es2) dockerArgs = pushEnvFlags (es1 @ es2) dockerArgs)"
proof -
  let ?flags = "filter (\<lambda>(k, v). k \<noteq> [] \<and> CHR ''='' \<notin> set k \<and> NUL \<notin> set k)
            (objectEntries (mergedEnv sandbox options))"
  have "spec_args (fst (buildDockerRunSpec pf rnd sandbox options m)) =
       take 18 (spec_args (fst (buildDockerRunSpec pf rnd sandbox options m)))
       @ concat (map (\<lambda>(k, v). [''--env'', k @ ''='' @ v]) ?flags)
       @ [rs_image sandbox, toContainerCommand (path_basename pf) (ro_command options)]
       @ ro_args options"
    by (simp add: buildDockerRunSpec_def Let_def pushEnvFlags_eq)
  moreover have "set ?flags \<subseteq> set (objectEntries (mergedEnv sandbox options))" by auto
  moreover have "\<forall>(k, v) \<in> set ?flags. k \<noteq> [] \<and> CHR ''='' \<notin> set k \<and> NUL \<notin> set k" by auto
  ultimately have "\<exists>flags. spec_args (fst (buildDockerRunSpec pf rnd sandbox options m)) =
       take 18 (spec_args (fst (buildDockerRunSpec pf rnd sandbox options m)))
       @ concat (map (\<lambda>(k, v). [''--env'', k @ ''='' @ v]) flags)
       @ [rs_image sandbox, toContainerCommand (path_basename pf) (ro_command options)]
       @ ro_args options
     \<and> set flags \<subseteq> set (objectEntries (mergedEnv sandbox options))
     \<and> (\<forall>(k, v) \<in> set flags. k \<noteq> [] \<and> CHR ''='' \<notin> set k \<and> NUL \<notin> set k)"
    by blast
  moreover have "key = [] \<or> CHR ''='' \<in> set key \<or> NUL \<in> set key \<longrightarrow>
        pushEnvFlags (es1 @ (key, val) # es2) dockerArgs = pushEnvFlags (es1 @ es2) dockerArgs"
    by (auto simp: pushEnvFlags_eq)
  ultimately show ?thesis by blast
qed

theorem env_flags_skip_unsafe_keys_witness:
  "pushEnvFlags [(''FOO'', ''bar''), (''BAD=KEY'', ''x''), (''BAZ'', ''1'')] [''run'']
     = pushEnvFlags [(''FOO'', ''bar''), (''BAZ'', ''1'')] [''run'']
   \<and> pushEnvFlags [(''FOO'', ''bar''), ([], ''x''), (''BAZ'', ''1'')] [''run'']
     = pushEnvFlags [(''FOO'', ''bar''), (''BAZ'', ''1'')] [''run'']
   \<and> pushEnvFlags [(''FOO'', ''bar''), ([CHR ''A'', NUL], ''x''), (''BAZ'', ''1'')] [''run'']
     = pushEnvFlags [(''FOO'', ''bar''), (''BAZ'', ''1'')] [''run'']
   \<and> pushEnvFlags [(''FOO'', ''bar''), (''BAZ'', ''1'')] [''run'']
     = [''run'', ''--env'', ''FOO=bar'', ''--env'', ''BAZ=1'']
   \<and> ''BAD=KEY=x'' \<notin> set (spec_args (fst (buildDockerRunSpec examplePlatform zeroBytes
       exampleSandbox (exampleOptions [] [(''FOO'', Some ''bar''), (''BAD=KEY'', Some ''x'')])
       initial_module_state)))"
proof -
  note skip = env_flags_skip_unsafe_keys [THEN conjunct2, rule_format,
      where ?es1.0 = "[(''FOO'', ''bar'')]" and ?es2.0 = "[(''BAZ'', ''1'')]"
        and dockerArgs = "[''run'']" and val = "''x''"]
  have a: "pushEnvFlags [(''FOO'', ''bar''), (''BAD=KEY'', ''x''), (''BAZ'', ''1'')] [''run'']
     = pushEnvFlags [(''FOO'', ''bar''), (''BAZ'', ''1'')] [''run'']"
    using skip [of "''BAD=KEY''"] by simp
  have b: "pushEnvFlags [(''FOO'', ''bar''), ([], ''x''), (''BAZ'', ''1'')] [''run'']
     = pushEnvFlags [(''FOO'', ''bar''), (''BAZ'', ''1'')] [''run'']"
    using skip [of "[]"] by simp
  have c: "pushEnvFlags [(''FOO'', ''bar''), ([CHR ''A'', NUL], ''x''), (''BAZ'', ''1'')] [''run'']
     = pushEnvFlags [(''FOO'', ''bar''), (''BAZ'', ''1'')] [''run'']"
    using skip [of "[CHR ''A'', NUL]"] by simp
  have d: "pushEnvFlags [(''FOO'', ''bar''), (''BAZ'', ''1'')] [''run'']
     = [''run'', ''--env'', ''FOO=bar'', ''--env'', ''BAZ=1'']"
    by (simp add: NUL_def)
  have e: "''BAD=KEY=x'' \<notin> set (spec_args (fst (buildDockerRunSpec examplePlatform zeroBytes
       exampleSandbox (exampleOptions [] [(''FOO'', Some ''bar''), (''BAD=KEY'', Some ''x'')])
       initial_module_state)))"
    by (simp add: example_defs)
  from a b c d e show ?thesis by (intro conjI)
qed

text \<open>
  Claim C8. Two builds from the same resolved configuration and the same run options,
  on the same platform, give vectors that agree before and after the fourth token;
  the fourth token of each is the container name generated for it.
\<close>

theorem builds_differ_only_in_name:
  "take 3 (spec_args (fst (buildDockerRunSpec pf rnd1 sandbox options m1)))
     = take 3 (spec_args (fst (buildDockerRunSpec pf rnd2 sandbox options m2)))
   \<and> drop 4 (spec_args (fst (buildDockerRunSpec pf rnd1 sandbox options m1)))
     = drop 4 (spec_args (fst (buildDockerRunSpec pf rnd2 sandbox options m2)))
   \<and> spec_args (fst (buildDockerRunSpec pf rnd1 sandbox options m1)) ! 3
     = createSandboxContainerName rnd1 (rs_containerNamePrefix sandbox)
   \<and> spec_args (fst (buildDockerRunSpec pf rnd2 sandbox options m2)) ! 3
     = createSandboxContainerName rnd2 (rs_containerNamePrefix sandbox)"
  by (simp add: buildDockerRunSpec_def Let_def pushEnvFlags_eq)

text \<open>
  Claim C10. The built invocation is the same whatever the host path of the resolved
  mount is, and the token after \<open>--volume\<close> is the resolved host working directory of
  the run options, the container path of the mount and the mode.
\<close>

theorem mount_host_path_unused:
  "buildDockerRunSpec pf rnd (sandbox\<lparr>rs_mount := (rs_mount sandbox)\<lparr>hostPath := h\<rparr>\<rparr>) options m
     = buildDockerRunSpec pf rnd sandbox options m
   \<and> spec_args (fst (buildDockerRunSpec pf rnd sandbox options m)) ! 14 = ''--volume''
   \<and> spec_args (fst (buildDockerRunSpec pf rnd sandbox options m)) ! 15
     = path_resolve pf (ro_cwd options) @ '':'' @ containerPath (rs_mount sandbox)
         @ (if readOnly (rs_mount sandbox) then '':ro'' else '':rw'')"
  by (simp add: buildDockerRunSpec_def Let_def pushEnvFlags_eq mergedEnv_def)

section \<open>Redaction\<close>

lemma takeWhile_key:
  "takeWhile (\<lambda>c. c \<noteq> CHR ''='') (takeWhile (\<lambda>c. c \<noteq> CHR ''='') t @ ''=<redacted>'')
     = takeWhile (\<lambda>c. c \<noteq> CHR ''='') t"
  by (induction t) auto

lemma redact_marker:
  "redactDockerArgsForLogging (''--env'' # t # rest) =
     ''--env'' # (takeWhile (\<lambda>c. c \<noteq> CHR ''='') t @ ''=<redacted>'')
       # redactDockerArgsForLogging rest"
  by simp

lemma redact_other:
  "arg \<noteq> ''--env'' \<Longrightarrow>
     redactDockerArgsForLogging (arg # rest) = arg # redactDockerArgsForLogging rest"
  by simp

lemma endsOnMarker_marker: "endsOnMarker (''--env'' # t # rest) = endsOnMarker rest"
  by simp

lemma endsOnMarker_other: "arg \<noteq> ''--env'' \<Longrightarrow> endsOnMarker (arg # rest) = endsOnMarker rest"
  by simp

lemma endsOnMarker_end: "endsOnMarker [''--env'']"
  by simp

text \<open>
  The environment flags the builder pushes are redacted with their keys kept: a key
  without \<open>=\<close> is the part of its token before the first \<open>=\<close>.
\<close>

lemma redact_env_flags:
  "\<forall>(k, v) \<in> set flags. CHR ''='' \<notin> set k \<Longrightarrow>
     redactDockerArgsForLogging (concat (map (\<lambda>(k, v). [''--env'', k @ ''='' @ v]) flags) @ rest)
       = concat (map (\<lambda>(k, v). [''--env'', k @ ''=<redacted>'']) flags)
           @ redactDockerArgsForLogging rest"
proof (induction flags)
  case Nil
  show ?case by simp
next
  case (Cons kv flags)
  obtain k v where kv: "kv = (k, v)" by (cases kv)
  with Cons.prems have "CHR ''='' \<notin> set k" by simp
  then have "takeWhile (\<lambda>c. c \<noteq> CHR ''='') (k @ ''='' @ v) = k"
    by (induction k) auto
  with Cons kv show ?case
    by (simp add: redact_marker del: redactDockerArgsForLogging.simps)
qed

text \<open>
  Where the scan does not end on a marker, redaction keeps the length of the vector and
  redacting twice is redacting once.
\<close>

lemma redact_regular:
  "\<not> endsOnMarker xs \<Longrightarrow>
     length (redactDockerArgsForLogging xs) = length xs
     \<and> redactDockerArgsForLogging (redactDockerArgsForLogging xs) = redactDockerArgsForLogging xs"
proof (induction xs rule: redactDockerArgsForLogging.induct)
  case 1
  show ?case by simp
next
  case (2 arg rest)
  show ?case
  proof (cases "arg = ''--env''")
    case False
    from "2.prems" endsOnMarker_other [OF False, of rest] have "\<not> endsOnMarker rest" by blast
    with "2.IH"(3) [OF False] show ?thesis
      by (simp add: redact_other [OF False]
          del: redactDockerArgsForLogging.simps endsOnMarker.simps)
  next
    case True
    show ?thesis
    proof (cases rest)
      case Nil
      with True "2.prems" endsOnMarker_end show ?thesis by blast
    next
      case (Cons t rest')
      from "2.prems" endsOnMarker_marker [of t rest'] have "\<not> endsOnMarker rest'"
        unfolding True Cons by blast
      with "2.IH"(2) [OF True Cons] show ?thesis
        unfolding True Cons
        by (simp add: redact_marker takeWhile_key
            del: redactDockerArgsForLogging.simps endsOnMarker.simps)
    qed
  qed
qed

text \<open>
  Claim C7, on the code, at the run options whose argument list is \<open>["--env"]\<close>. The
  built vector ends with that token; the redacted vector has it twice, so it is one
  token longer than the built vector, and redacting the redacted vector changes it again.
\<close>

theorem redaction_of_trailing_marker:
  "spec_args (fst (buildDockerRunSpec examplePlatform zeroBytes exampleSandbox
       (exampleOptions [''--env''] [(''FOO'', Some ''bar'')]) initial_module_state))
     = [''run'', ''--rm'', ''--name'', ''accomplish-sandbox-0000000000000000'',
        ''--user'', ''1000:1000'', ''--memory'', ''512m'', ''--cpus'', ''0.5'',
        ''--pids-limit'', ''50'', ''--network'', ''none'',
        ''--volume'', ''/tmp/work:/workspace:rw'', ''--workdir'', ''/workspace'',
        ''--env'', ''FOO=bar'', ''alpine:3.19'', ''printenv'', ''--env'']
   \<and> spec_redactedArgs (fst (buildDockerRunSpec examplePlatform zeroBytes exampleSandbox
       (exampleOptions [''--env''] [(''FOO'', Some ''bar'')]) initial_module_state))
     = [''run'', ''--rm'', ''--name'', ''accomplish-sandbox-0000000000000000'',
        ''--user'', ''1000:1000'', ''--memory'', ''512m'', ''--cpus'', ''0.5'',
        ''--pids-limit'', ''50'', ''--network'', ''none'',
        ''--volume'', ''/tmp/work:/workspace:rw'', ''--workdir'', ''/workspace'',
        ''--env'', ''FOO=<redacted>'', ''alpine:3.19'', ''printenv'', ''--env'', ''--env'']
   \<and> redactDockerArgsForLogging (spec_redactedArgs (fst (buildDockerRunSpec examplePlatform
       zeroBytes exampleSandbox (exampleOptions [''--env''] [(''FOO'', Some ''bar'')])
       initial_module_state)))
     = [''run'', ''--rm'', ''--name'', ''accomplish-sandbox-0000000000000000'',
        ''--user'', ''1000:1000'', ''--memory'', ''512m'', ''--cpus'', ''0.5'',
        ''--pids-limit'', ''50'', ''--network'', ''none'',
        ''--volume'', ''/tmp/work:/workspace:rw'', ''--workdir'', ''/workspace'',
        ''--env'', ''FOO=<redacted>'', ''alpine:3.19'', ''printenv'', ''--env'',
        ''--env=<redacted>'']"
  by (simp add: example_defs)

end
